theory Spec2Isabelle
  imports Complex_Main
begin

section \<open>Voice cloning with emotion control: the clone-and-validate pipeline\<close>

text \<open>
  A shallow embedding of the code cells of \<^verbatim>\<open>genAIcapstoneproject.ipynb\<close>:
  \<^verbatim>\<open>detect_text_emotion\<close>, \<^verbatim>\<open>extract_emotion\<close>, \<^verbatim>\<open>evaluate_similarity\<close> and
  \<^verbatim>\<open>clone_voice\<close>.

  The external libraries (pydub, transformers, TTS, resemblyzer) are not part of the
  notebook. They are the fields of an environment record: each call that can raise returns
  a sum, \<open>Inl\<close> carrying the exception. The file system is an explicit store from paths to
  audio contents, because the pipeline communicates with its collaborators through files
  in the temporary directory. A trace records each invocation of a model.

  Python strings are byte lists in UTF-8; \<^verbatim>\<open>str.lower\<close> is modelled on the ASCII letters,
  other bytes are unchanged. A Python float is carried as a real number and rounding is
  not modelled: a similarity is only ever evaluated below on vectors with entries 0, 1 or
  -1, where the float computation is exact, and nothing is proved about its range.
  Printing to standard output is not modelled. Only exceptions of class \<^verbatim>\<open>Exception\<close> are modelled,
  which is what the \<^verbatim>\<open>except Exception\<close> clauses of the notebook catch.
\<close>

subsection \<open>Data\<close>

datatype exc =
    ValueError string
  | FileNotFoundError string
  | PermissionError string
  | RuntimeError string

datatype event =
    TextClassifier string
  | AudioClassifier string
  | Synthesizer string "string list" string
  | SpeakerEncoder string string

record 'a world =
  files :: "string \<rightharpoonup> 'a"
  trace :: "event list"

record 'a env =
  tmpdir :: string
  writable :: "string \<Rightarrow> bool"
  from_file :: "'a \<Rightarrow> exc + 'a"
  canonical :: "'a \<Rightarrow> 'a"
  silent :: "nat \<Rightarrow> 'a"
  text_model :: "string \<Rightarrow> exc + string"
  audio_model :: "'a \<Rightarrow> exc + string"
  tts_model :: "string \<Rightarrow> 'a list \<Rightarrow> string \<Rightarrow> exc + 'a"
  speaker_embed :: "'a \<Rightarrow> exc + real list"

type_synonym result = "string \<times> real \<times> string"

subsection \<open>Strings and paths\<close>

definition lower_char :: "char \<Rightarrow> char" where
  "lower_char c =
     (case map_of (zip ''ABCDEFGHIJKLMNOPQRSTUVWXYZ'' ''abcdefghijklmnopqrstuvwxyz'') c of
        None \<Rightarrow> c
      | Some l \<Rightarrow> l)"

definition lower :: "string \<Rightarrow> string" where
  "lower s = map lower_char s"

text \<open>\<^verbatim>\<open>os.path.join(d, f)\<close> for a relative second component \<open>f\<close>.\<close>

definition path_join :: "string \<Rightarrow> string \<Rightarrow> string" where
  "path_join d f =
     (if d = [] then f
      else if last d = CHR ''/'' then d @ f
      else d @ ''/'' @ f)"

text \<open>The decimal numeral of an index, as the f-string \<^verbatim>\<open>f"processed_{i}.wav"\<close> formats it.\<close>

fun str_nat :: "nat \<Rightarrow> string" where
  "str_nat n =
     (if n < 10 then [''0123456789'' ! n]
      else str_nat (n div 10) @ [''0123456789'' ! (n mod 10)])"

declare str_nat.simps [simp del]

definition processed_path :: "'a env \<Rightarrow> nat \<Rightarrow> string" where
  "processed_path E i = path_join (tmpdir E) (''processed_'' @ str_nat i @ ''.wav'')"

definition output_path :: "'a env \<Rightarrow> string" where
  "output_path E = path_join (tmpdir E) ''output.wav''"

definition error_path :: "'a env \<Rightarrow> string" where
  "error_path E = path_join (tmpdir E) ''error.wav''"

text \<open>The check mark U+2714 and the cross U+2716 of the verdict, in UTF-8.\<close>

definition check_mark :: string where
  "check_mark = [CHR 0xE2, CHR 0x9C, CHR 0x94]"

definition cross_mark :: string where
  "cross_mark = [CHR 0xE2, CHR 0x9C, CHR 0x96]"

subsection \<open>Writing a file\<close>

text \<open>
  \<^verbatim>\<open>export\<close> of pydub and \<^verbatim>\<open>tts_to_file\<close> write a file; the write raises when the path
  cannot be written.
\<close>

definition export :: "'a env \<Rightarrow> string \<Rightarrow> 'a \<Rightarrow> 'a world \<Rightarrow> exc + 'a world" where
  "export E path c s =
     (if writable E path then Inr (s\<lparr>files := (files s)(path \<mapsto> c)\<rparr>)
      else Inl (PermissionError path))"

subsection \<open>detect_text_emotion\<close>

definition emotion_map :: "string \<rightharpoonup> string" where
  "emotion_map =
     [''joy'' \<mapsto> ''happy'', ''sadness'' \<mapsto> ''sad'', ''anger'' \<mapsto> ''angry'',
      ''neutral'' \<mapsto> ''neutral'']"

text \<open>\<^verbatim>\<open>d.get(k, default)\<close>\<close>

definition dict_get :: "('k \<rightharpoonup> 'v) \<Rightarrow> 'k \<Rightarrow> 'v \<Rightarrow> 'v" where
  "dict_get d k dflt = (case d k of None \<Rightarrow> dflt | Some v \<Rightarrow> v)"

definition detect_text_emotion :: "'a env \<Rightarrow> string \<Rightarrow> 'a world \<Rightarrow> string \<times> 'a world" where
  "detect_text_emotion E text s =
     (let s' = s\<lparr>trace := trace s @ [TextClassifier text]\<rparr> in
      case text_model E text of
        Inl e \<Rightarrow> (''neutral'', s')
      | Inr label \<Rightarrow> (dict_get emotion_map (lower label) ''neutral'', s'))"

subsection \<open>extract_emotion\<close>

definition extract_emotion :: "'a env \<Rightarrow> string \<Rightarrow> 'a world \<Rightarrow> string \<times> 'a world" where
  "extract_emotion E audio_path s =
     (case files s audio_path of
        None \<Rightarrow> (''neutral'', s)
      | Some audio \<Rightarrow>
          (let s' = s\<lparr>trace := trace s @ [AudioClassifier audio_path]\<rparr> in
           case audio_model E audio of
             Inl e \<Rightarrow> (''neutral'', s')
           | Inr label \<Rightarrow> (lower label, s')))"

subsection \<open>evaluate_similarity\<close>

definition dot :: "real list \<Rightarrow> real list \<Rightarrow> real" where
  "dot xs ys = sum_list (map2 (*) xs ys)"

definition l2_norm :: "real list \<Rightarrow> real" where
  "l2_norm xs = sqrt (dot xs xs)"

text \<open>
  Modelled from the spec: the similarity metric is the cosine similarity of the two
  embedding vectors; the function is \<^verbatim>\<open>sklearn.metrics.pairwise.cosine_similarity\<close>,
  which is not under src/. It rejects rows of different or zero length, and leaves a row
  of norm zero unscaled. The quotient is the exact one; the program computes it in
  floating point.
\<close>

definition cosine_similarity :: "real list \<Rightarrow> real list \<Rightarrow> exc + real" where
  "cosine_similarity xs ys =
     (if xs = [] \<or> length xs \<noteq> length ys
      then Inl (ValueError ''Incompatible dimension'')
      else
        let nx = (if l2_norm xs = 0 then 1 else l2_norm xs);
            ny = (if l2_norm ys = 0 then 1 else l2_norm ys)
        in Inr (dot xs ys / (nx * ny)))"

definition embed_file :: "'a env \<Rightarrow> string \<Rightarrow> 'a world \<Rightarrow> exc + real list" where
  "embed_file E path s =
     (case files s path of
        None \<Rightarrow> Inl (FileNotFoundError path)
      | Some audio \<Rightarrow> speaker_embed E audio)"

definition evaluate_similarity ::
  "'a env \<Rightarrow> string \<Rightarrow> string \<Rightarrow> 'a world \<Rightarrow> real \<times> 'a world" where
  "evaluate_similarity E original_path cloned_path s =
     (let s' = s\<lparr>trace := trace s @ [SpeakerEncoder original_path cloned_path]\<rparr> in
      case embed_file E original_path s of
        Inl e \<Rightarrow> (0, s')
      | Inr orig_embed \<Rightarrow>
          (case embed_file E cloned_path s of
             Inl e \<Rightarrow> (0, s')
           | Inr clone_embed \<Rightarrow>
               (case cosine_similarity orig_embed clone_embed of
                  Inl e \<Rightarrow> (0, s')
                | Inr v \<Rightarrow> (v, s'))))"

subsection \<open>clone_voice\<close>

text \<open>The comprehension \<^verbatim>\<open>[p for p in [audio_path1, audio_path2, audio_path3] if p]\<close>.\<close>

fun supplied :: "string option list \<Rightarrow> string list" where
  "supplied [] = []"
| "supplied (None # ps) = supplied ps"
| "supplied (Some p # ps) = (if p = [] then supplied ps else p # supplied ps)"

text \<open>The loop over the supplied references, from index \<open>i\<close>.\<close>

fun process_refs ::
  "'a env \<Rightarrow> nat \<Rightarrow> string list \<Rightarrow> string list \<Rightarrow> 'a world \<Rightarrow> (exc + string list) \<times> 'a world" where
  "process_refs E i [] ref_paths s = (Inr ref_paths, s)"
| "process_refs E i (path # paths) ref_paths s =
     (case files s path of
        None \<Rightarrow> (Inl (FileNotFoundError path), s)
      | Some raw \<Rightarrow>
          (case from_file E raw of
             Inl e \<Rightarrow> (Inl e, s)
           | Inr audio \<Rightarrow>
               (case export E (processed_path E i) (canonical E audio) s of
                  Inl e \<Rightarrow> (Inl e, s)
                | Inr s' \<Rightarrow>
                    process_refs E (Suc i) paths (ref_paths @ [processed_path E i]) s')))"

text \<open>The block \<^verbatim>\<open># Determine emotion\<close>; \<open>ref0\<close> is \<^verbatim>\<open>ref_paths[0]\<close>.\<close>

definition determine_emotion ::
  "'a env \<Rightarrow> string \<Rightarrow> string \<Rightarrow> string \<Rightarrow> 'a world \<Rightarrow> string \<times> 'a world" where
  "determine_emotion E text ref0 target_emotion s =
     (case extract_emotion E ref0 s of
        (auto, s1) \<Rightarrow>
          (let emotion_options =
                 ['''' \<mapsto> auto, ''happy'' \<mapsto> ''happy'', ''sad'' \<mapsto> ''sad'',
                  ''angry'' \<mapsto> ''angry'', ''neutral'' \<mapsto> ''neutral'']
           in if target_emotion = ''''
              then detect_text_emotion E text s1
              else (dict_get emotion_options (lower target_emotion) ''neutral'', s1)))"

text \<open>The block \<^verbatim>\<open># Generate voice clone\<close>: the synthesizer reads the references and writes the output file.\<close>

fun read_all :: "'a world \<Rightarrow> string list \<Rightarrow> exc + 'a list" where
  "read_all s [] = Inr []"
| "read_all s (p # ps) =
     (case files s p of
        None \<Rightarrow> Inl (FileNotFoundError p)
      | Some c \<Rightarrow> (case read_all s ps of Inl e \<Rightarrow> Inl e | Inr cs \<Rightarrow> Inr (c # cs)))"

definition generate_clone ::
  "'a env \<Rightarrow> string \<Rightarrow> string list \<Rightarrow> string \<Rightarrow> 'a world \<Rightarrow> (exc + string) \<times> 'a world" where
  "generate_clone E text ref_paths final_emotion s =
     (let s' = s\<lparr>trace := trace s @ [Synthesizer text ref_paths final_emotion]\<rparr> in
      case read_all s ref_paths of
        Inl e \<Rightarrow> (Inl e, s')
      | Inr speaker_wav \<Rightarrow>
          (case tts_model E text speaker_wav final_emotion of
             Inl e \<Rightarrow> (Inl e, s')
           | Inr wav \<Rightarrow>
               (case export E (output_path E) wav s' of
                  Inl e \<Rightarrow> (Inl e, s')
                | Inr s'' \<Rightarrow> (Inr (output_path E), s''))))"

text \<open>The verdict, the third component of the returned tuple.\<close>

definition verdict :: "string \<Rightarrow> string \<Rightarrow> string" where
  "verdict final_emotion cloned_emotion =
     (if cloned_emotion = final_emotion
      then final_emotion @ '' ('' @ check_mark @ '')''
      else final_emotion @ '' ('' @ cross_mark @ '' Got '' @ cloned_emotion @ '')'')"

text \<open>The block \<^verbatim>\<open># Validate emotion\<close> and the \<^verbatim>\<open>return\<close> of the tuple.\<close>

definition validate ::
  "'a env \<Rightarrow> string \<Rightarrow> string \<Rightarrow> string \<Rightarrow> 'a world \<Rightarrow> result \<times> 'a world" where
  "validate E ref0 out final_emotion s =
     (case extract_emotion E out s of
        (cloned_emotion, s1) \<Rightarrow>
          (case evaluate_similarity E ref0 out s1 of
             (sim, s2) \<Rightarrow> ((out, sim, verdict final_emotion cloned_emotion), s2)))"

text \<open>The body of the \<^verbatim>\<open>try\<close>, up to the synthesis.\<close>

definition synthesis_stage ::
  "'a env \<Rightarrow> string \<Rightarrow> string option \<Rightarrow> string option \<Rightarrow> string option \<Rightarrow> string \<Rightarrow> 'a world
     \<Rightarrow> (exc + string \<times> string \<times> string) \<times> 'a world" where
  "synthesis_stage E text audio_path1 audio_path2 audio_path3 target_emotion s =
     (case process_refs E 0 (supplied [audio_path1, audio_path2, audio_path3]) [] s of
        (Inl e, s1) \<Rightarrow> (Inl e, s1)
      | (Inr [], s1) \<Rightarrow> (Inl (ValueError ''At least one reference audio required''), s1)
      | (Inr (ref0 # refs), s1) \<Rightarrow>
          (case determine_emotion E text ref0 target_emotion s1 of
             (final_emotion, s2) \<Rightarrow>
               (case generate_clone E text (ref0 # refs) final_emotion s2 of
                  (Inl e, s3) \<Rightarrow> (Inl e, s3)
                | (Inr out, s3) \<Rightarrow> (Inr (ref0, out, final_emotion), s3))))"

text \<open>The whole body of the \<^verbatim>\<open>try\<close>.\<close>

definition clone_voice_try ::
  "'a env \<Rightarrow> string \<Rightarrow> string option \<Rightarrow> string option \<Rightarrow> string option \<Rightarrow> string \<Rightarrow> 'a world
     \<Rightarrow> (exc + result) \<times> 'a world" where
  "clone_voice_try E text audio_path1 audio_path2 audio_path3 target_emotion s =
     (case synthesis_stage E text audio_path1 audio_path2 audio_path3 target_emotion s of
        (Inl e, s1) \<Rightarrow> (Inl e, s1)
      | (Inr (ref0, out, final_emotion), s1) \<Rightarrow>
          (case validate E ref0 out final_emotion s1 of (r, s2) \<Rightarrow> (Inr r, s2)))"

text \<open>
  \<^verbatim>\<open>clone_voice\<close>: the \<^verbatim>\<open>try\<close> and its handler. The handler writes one second of silence to
  \<^verbatim>\<open>error.wav\<close> outside any \<^verbatim>\<open>try\<close>, so a failure of that write leaves the function.
\<close>

definition clone_voice ::
  "'a env \<Rightarrow> string \<Rightarrow> string option \<Rightarrow> string option \<Rightarrow> string option \<Rightarrow> string \<Rightarrow> 'a world
     \<Rightarrow> (exc + result) \<times> 'a world" where
  "clone_voice E text audio_path1 audio_path2 audio_path3 target_emotion s =
     (case clone_voice_try E text audio_path1 audio_path2 audio_path3 target_emotion s of
        (Inr r, s1) \<Rightarrow> (Inr r, s1)
      | (Inl e, s1) \<Rightarrow>
          (case export E (error_path E) (silent E 1000) s1 of
             Inl e' \<Rightarrow> (Inl e', s1)
           | Inr s2 \<Rightarrow> (Inr (error_path E, 0, ''Error''), s2)))"

subsection \<open>A concrete environment\<close>

text \<open>
  Audio contents as terms that record how they were produced, and an environment in which
  every collaborator succeeds: the text classifier answers \<^verbatim>\<open>joy\<close>, the audio classifier
  answers \<^verbatim>\<open>hap\<close>, and every utterance has the same speaker embedding. Each variant
  below changes one collaborator: what it answers, or whether it raises.
\<close>

datatype audio =
    Raw string
  | Canon audio
  | Speech string "audio list" string
  | Silence nat

definition demo_env :: "audio env" where
  "demo_env =
     \<lparr> tmpdir = ''/tmp'',
       writable = (\<lambda>p. True),
       from_file = (\<lambda>a. Inr a),
       canonical = Canon,
       silent = Silence,
       text_model = (\<lambda>t. Inr ''joy''),
       audio_model = (\<lambda>a. Inr ''hap''),
       tts_model = (\<lambda>t rs e. Inr (Speech t rs e)),
       speaker_embed = (\<lambda>a. Inr [1, 0]) \<rparr>"

definition demo_world :: "audio world" where
  "demo_world = \<lparr> files = [''ref.mp3'' \<mapsto> Raw ''alice''], trace = [] \<rparr>"

definition text_fails_env :: "audio env" where
  "text_fails_env =
     demo_env\<lparr>text_model := (\<lambda>t. Inl (RuntimeError ''text model unavailable''))\<rparr>"

definition audio_disagrees_env :: "audio env" where
  "audio_disagrees_env =
     demo_env\<lparr>audio_model := (\<lambda>a. Inr ''sad''), speaker_embed := (\<lambda>a. Inr [0, 1])\<rparr>"

definition other_world :: "audio world" where
  "other_world = \<lparr> files = [''bob.wav'' \<mapsto> Raw ''bob'', ''carol.ogg'' \<mapsto> Raw ''carol''], trace = [] \<rparr>"

definition tts_fails_env :: "audio env" where
  "tts_fails_env =
     demo_env\<lparr>tts_model := (\<lambda>t rs e. Inl (RuntimeError ''synthesis failed''))\<rparr>"

definition error_unwritable_env :: "audio env" where
  "error_unwritable_env = tts_fails_env\<lparr>writable := (\<lambda>p. p \<noteq> ''/tmp/error.wav'')\<rparr>"

definition validation_fails_env :: "audio env" where
  "validation_fails_env =
     demo_env\<lparr>audio_model := (\<lambda>a. Inl (RuntimeError ''audio model unavailable'')),
              speaker_embed := (\<lambda>a. Inl (RuntimeError ''encoder unavailable''))\<rparr>"

definition matching_env :: "audio env" where
  "matching_env = demo_env\<lparr>audio_model := (\<lambda>a. Inr ''SAD'')\<rparr>"


section \<open>Lemmas\<close>

subsection \<open>Unfolding the model on concrete inputs\<close>

lemmas path_defs =
  processed_path_def output_path_def error_path_def path_join_def
  str_nat.simps [of 0] str_nat.simps [of "Suc 0"] str_nat.simps [of "Suc (Suc 0)"]

lemmas stage_defs =
  clone_voice_def clone_voice_try_def synthesis_stage_def export_def
  determine_emotion_def extract_emotion_def detect_text_emotion_def generate_clone_def
  validate_def evaluate_similarity_def embed_file_def cosine_similarity_def dot_def
  l2_norm_def verdict_def dict_get_def lower_def lower_char_def emotion_map_def
  check_mark_def cross_mark_def

subsection \<open>Strings and paths\<close>

lemma lower_Nil_iff: "lower t = [] \<longleftrightarrow> t = []"
  by (simp add: lower_def)

lemma path_join_inject: "path_join d a = path_join d b \<Longrightarrow> a = b"
  by (auto simp: path_join_def split: if_splits)

lemma output_path_neq_error_path: "output_path E \<noteq> error_path E"
  by (auto simp: output_path_def error_path_def dest: path_join_inject)

subsection \<open>What each step does to the files and to the trace\<close>

lemma trace_export: "export E p c s = Inr s' \<Longrightarrow> trace s' = trace s"
  by (auto simp: export_def split: if_splits)

lemma trace_process_refs: "trace (snd (process_refs E i ps rs s)) = trace s"
proof (induction ps arbitrary: i rs s)
  case Nil
  then show ?case by simp
next
  case (Cons p ps)
  then show ?case
    by (auto split: option.splits sum.splits dest: trace_export)
qed

lemma files_extract_emotion: "files (snd (extract_emotion E p s)) = files s"
  by (simp add: extract_emotion_def Let_def split: option.splits sum.splits)

lemma trace_extract_emotion:
  "trace (snd (extract_emotion E p s)) =
     trace s @ (case files s p of None \<Rightarrow> [] | Some a \<Rightarrow> [AudioClassifier p])"
  by (simp add: extract_emotion_def Let_def split: option.splits sum.splits)

lemma files_detect_text_emotion: "files (snd (detect_text_emotion E t s)) = files s"
  by (simp add: detect_text_emotion_def Let_def split: sum.splits)

lemma trace_detect_text_emotion:
  "trace (snd (detect_text_emotion E t s)) = trace s @ [TextClassifier t]"
  by (simp add: detect_text_emotion_def Let_def split: sum.splits)

lemma files_determine_emotion: "files (snd (determine_emotion E t r0 tg s)) = files s"
  by (simp add: determine_emotion_def Let_def case_prod_beta
      files_extract_emotion files_detect_text_emotion)

lemma trace_determine_emotion:
  "trace (snd (determine_emotion E t r0 tg s)) =
     trace s @ (case files s r0 of None \<Rightarrow> [] | Some a \<Rightarrow> [AudioClassifier r0])
       @ (if tg = [] then [TextClassifier t] else [])"
  by (simp add: determine_emotion_def Let_def case_prod_beta
      trace_extract_emotion trace_detect_text_emotion)

lemma trace_generate_clone:
  "trace (snd (generate_clone E t rs fe s)) = trace s @ [Synthesizer t rs fe]"
  by (auto simp: generate_clone_def Let_def split: sum.splits dest!: trace_export)

lemma snd_evaluate_similarity:
  "snd (evaluate_similarity E a b s) = s\<lparr>trace := trace s @ [SpeakerEncoder a b]\<rparr>"
  by (simp add: evaluate_similarity_def Let_def split: sum.splits)

lemma files_validate: "files (snd (validate E r0 out fe s)) = files s"
  by (simp add: validate_def case_prod_beta snd_evaluate_similarity files_extract_emotion)

lemma trace_validate:
  "trace (snd (validate E r0 out fe s)) =
     trace s @ (case files s out of None \<Rightarrow> [] | Some a \<Rightarrow> [AudioClassifier out])
       @ [SpeakerEncoder r0 out]"
  by (simp add: validate_def case_prod_beta snd_evaluate_similarity trace_extract_emotion)

subsection \<open>The helpers absorb the failures of their collaborators\<close>

lemma detect_text_emotion_taxonomy:
  "fst (detect_text_emotion E text s) \<in> {''happy'', ''sad'', ''angry'', ''neutral''}"
  by (simp add: detect_text_emotion_def Let_def dict_get_def emotion_map_def split: sum.splits)

lemma embed_file_extract_emotion:
  "embed_file E p (snd (extract_emotion E q s)) = embed_file E p s"
  by (simp add: embed_file_def files_extract_emotion)

lemma evaluate_similarity_absorbs:
  assumes "isl (embed_file E a s) \<or> isl (embed_file E b s)
           \<or> (\<exists>x y. embed_file E a s = Inr x \<and> embed_file E b s = Inr y
                 \<and> isl (cosine_similarity x y))"
  shows "fst (evaluate_similarity E a b s) = 0"
  using assms
  by (auto simp: evaluate_similarity_def Let_def split: sum.splits)

lemma extract_emotion_absorbs:
  assumes "files s p = Some a" and "isl (audio_model E a)"
  shows "fst (extract_emotion E p s) = ''neutral''"
  using assms by (auto simp: extract_emotion_def Let_def split: sum.splits)

subsection \<open>The text classifier is consulted by detect_text_emotion only\<close>

lemma process_refs_text_model:
  "process_refs (E\<lparr>text_model := f\<rparr>) i ps rs s = process_refs E i ps rs s"
  by (induction ps arbitrary: i rs s)
    (simp_all add: export_def processed_path_def split: option.splits sum.splits)

lemma extract_emotion_text_model:
  "extract_emotion (E\<lparr>text_model := f\<rparr>) p s = extract_emotion E p s"
  by (simp add: extract_emotion_def Let_def cong: option.case_cong sum.case_cong)

lemma generate_clone_text_model:
  "generate_clone (E\<lparr>text_model := f\<rparr>) t rs fe s = generate_clone E t rs fe s"
  by (simp add: generate_clone_def export_def output_path_def Let_def cong: sum.case_cong)

lemma validate_text_model:
  "validate (E\<lparr>text_model := f\<rparr>) r0 out fe s = validate E r0 out fe s"
  by (simp add: validate_def extract_emotion_text_model evaluate_similarity_def embed_file_def
      Let_def cong: option.case_cong sum.case_cong)

lemma determine_emotion_text_fails:
  assumes "text_model E text = Inl e"
  shows "determine_emotion E text r0 [] s
           = determine_emotion (E\<lparr>text_model := (\<lambda>t. Inr ''neutral'')\<rparr>) text r0 [] s"
  using assms
  by (simp add: determine_emotion_def extract_emotion_text_model detect_text_emotion_def
      dict_get_def emotion_map_def lower_def lower_char_def Let_def)

lemma clone_voice_text_fails:
  assumes "text_model E text = Inl e"
  shows "clone_voice E text a1 a2 a3 [] s
           = clone_voice (E\<lparr>text_model := (\<lambda>t. Inr ''neutral'')\<rparr>) text a1 a2 a3 [] s"
  by (simp add: clone_voice_def clone_voice_try_def synthesis_stage_def
      process_refs_text_model generate_clone_text_model validate_text_model
      determine_emotion_text_fails [OF assms, symmetric] export_def error_path_def
      cong: prod.case_cong sum.case_cong list.case_cong)

lemma determine_emotion_independent:
  assumes "text_model E text = text_model E' text"
  shows "fst (determine_emotion E text r0 tg s) = fst (determine_emotion E' text r0' tg s')"
proof (cases "tg = []")
  case True
  with assms show ?thesis
    by (simp add: determine_emotion_def detect_text_emotion_def Let_def case_prod_beta
        split: sum.splits)
next
  case False
  then have "lower tg \<noteq> []" by (simp add: lower_Nil_iff)
  with False show ?thesis
    by (simp add: determine_emotion_def Let_def case_prod_beta dict_get_def)
qed

subsection \<open>The body of the try and the handler\<close>

lemma synthesis_stage_Inr:
  assumes "synthesis_stage E text a1 a2 a3 tg s = (Inr (ref0, out, fe), s3)"
  shows "\<exists>refs s1. process_refs E 0 (supplied [a1, a2, a3]) [] s = (Inr (ref0 # refs), s1)
           \<and> fe = fst (determine_emotion E text ref0 tg s1)
           \<and> generate_clone E text (ref0 # refs) fe (snd (determine_emotion E text ref0 tg s1))
                = (Inr out, s3)"
  using assms
  by (auto simp: synthesis_stage_def split: prod.splits sum.splits list.splits)

lemma generate_clone_Inr:
  assumes "generate_clone E text rs fe s = (Inr out, s')"
  shows "out = output_path E \<and>
         (\<exists>speaker_wav wav. read_all s rs = Inr speaker_wav
            \<and> tts_model E text speaker_wav fe = Inr wav
            \<and> files s' = (files s)(output_path E \<mapsto> wav))"
  using assms
  by (auto simp: generate_clone_def Let_def export_def split: sum.splits if_splits)

lemma synthesis_stage_output:
  assumes "synthesis_stage E text a1 a2 a3 tg s = (Inr (ref0, out, fe), s1)"
  shows "out = output_path E \<and> (\<exists>wav. files s1 out = Some wav)"
proof -
  from synthesis_stage_Inr [OF assms] obtain refs s0 where
    "generate_clone E text (ref0 # refs) fe (snd (determine_emotion E text ref0 tg s0))
       = (Inr out, s1)"
    by blast
  from generate_clone_Inr [OF this] show ?thesis by auto
qed

lemma isl_clone_voice_try:
  "isl (fst (clone_voice_try E text a1 a2 a3 tg s)) = isl (fst (synthesis_stage E text a1 a2 a3 tg s))"
  by (simp add: clone_voice_try_def case_prod_beta split: prod.splits sum.splits)

lemma clone_voice_failed:
  assumes "isl (fst (clone_voice_try E text a1 a2 a3 tg s))"
  shows "clone_voice E text a1 a2 a3 tg s =
           (let s1 = snd (clone_voice_try E text a1 a2 a3 tg s) in
            if writable E (error_path E)
            then (Inr (error_path E, 0, ''Error''),
                  s1\<lparr>files := (files s1)(error_path E \<mapsto> silent E 1000)\<rparr>)
            else (Inl (PermissionError (error_path E)), s1))"
  using assms
  by (cases "clone_voice_try E text a1 a2 a3 tg s")
    (auto simp: clone_voice_def export_def Let_def split: sum.splits)

lemma clone_voice_succeeded:
  assumes "\<not> isl (fst (clone_voice_try E text a1 a2 a3 tg s))"
  shows "clone_voice E text a1 a2 a3 tg s = clone_voice_try E text a1 a2 a3 tg s"
  using assms
  by (cases "clone_voice_try E text a1 a2 a3 tg s")
    (auto simp: clone_voice_def split: sum.splits)

lemma clone_voice_after_synthesis:
  assumes "synthesis_stage E text a1 a2 a3 tg s = (Inr (ref0, out, fe), s1)"
  shows "clone_voice E text a1 a2 a3 tg s = (Inr (fst (validate E ref0 out fe s1)), snd (validate E ref0 out fe s1))"
  using assms by (simp add: clone_voice_def clone_voice_try_def case_prod_beta)

lemma fst_validate:
  "fst (validate E ref0 out fe s) =
     (out, fst (evaluate_similarity E ref0 out (snd (extract_emotion E out s))),
      verdict fe (fst (extract_emotion E out s)))"
  by (simp add: validate_def case_prod_beta)

lemma isl_generate_clone:
  assumes "\<forall>t rs e. isl (tts_model E t rs e)"
  shows "isl (fst (generate_clone E text refs fe s))"
proof (cases "read_all s refs")
  case (Inl e)
  then show ?thesis by (simp add: generate_clone_def)
next
  case (Inr wavs)
  from assms have "isl (tts_model E text wavs fe)" by blast
  then obtain e where "tts_model E text wavs fe = Inl e"
    by (cases "tts_model E text wavs fe") auto
  with Inr show ?thesis by (simp add: generate_clone_def)
qed

lemma isl_synthesis_stage_tts:
  assumes "\<forall>t rs e. isl (tts_model E t rs e)"
  shows "isl (fst (synthesis_stage E text a1 a2 a3 tg s))"
proof (cases "process_refs E 0 (supplied [a1, a2, a3]) [] s")
  case (Pair res s1)
  show ?thesis
  proof (cases res)
    case (Inl e)
    with Pair show ?thesis by (simp add: synthesis_stage_def)
  next
    case (Inr refs)
    show ?thesis
    proof (cases refs)
      case Nil
      with Pair Inr show ?thesis by (simp add: synthesis_stage_def)
    next
      case (Cons ref0 rest)
      let ?d = "determine_emotion E text ref0 tg s1"
      have "isl (fst (generate_clone E text (ref0 # rest) (fst ?d) (snd ?d)))"
        using assms by (rule isl_generate_clone)
      then obtain e where "fst (generate_clone E text (ref0 # rest) (fst ?d) (snd ?d)) = Inl e"
        by (cases "fst (generate_clone E text (ref0 # rest) (fst ?d) (snd ?d))") auto
      with Pair Inr Cons show ?thesis
        by (simp add: synthesis_stage_def case_prod_beta)
    qed
  qed
qed

lemma isl_synthesis_stage_refs:
  assumes "isl (fst (process_refs E 0 (supplied [a1, a2, a3]) [] s))"
  shows "isl (fst (synthesis_stage E text a1 a2 a3 tg s))"
  using assms
  by (cases "process_refs E 0 (supplied [a1, a2, a3]) [] s")
    (auto simp: synthesis_stage_def split: sum.splits)

lemma clone_voice_try_no_reference:
  assumes "supplied [a1, a2, a3] = []"
  shows "clone_voice_try E text a1 a2 a3 tg s
           = (Inl (ValueError ''At least one reference audio required''), s)"
  using assms by (simp add: clone_voice_try_def synthesis_stage_def)

subsection \<open>The trace of a whole call\<close>

lemma trace_synthesis_stage_failed:
  assumes "process_refs E 0 (supplied [a1, a2, a3]) [] s = (res, s1)"
    and "res = Inr [] \<or> isl res"
  shows "trace (snd (synthesis_stage E text a1 a2 a3 tg s)) = trace s"
  using assms trace_process_refs [of E 0 "supplied [a1, a2, a3]" "[]" s]
  by (auto simp: synthesis_stage_def split: sum.splits)

lemma trace_synthesis_stage_refs:
  assumes "process_refs E 0 (supplied [a1, a2, a3]) [] s = (Inr (ref0 # refs), s1)"
  shows "trace (snd (synthesis_stage E text a1 a2 a3 tg s)) =
           trace s @ (case files s1 ref0 of None \<Rightarrow> [] | Some a \<Rightarrow> [AudioClassifier ref0])
             @ (if tg = [] then [TextClassifier text] else [])
             @ [Synthesizer text (ref0 # refs) (fst (determine_emotion E text ref0 tg s1))]"
proof -
  have tr: "trace s1 = trace s"
    using trace_process_refs [of E 0 "supplied [a1, a2, a3]" "[]" s] assms by simp
  let ?d = "determine_emotion E text ref0 tg s1"
  have "trace (snd (synthesis_stage E text a1 a2 a3 tg s))
          = trace (snd ?d) @ [Synthesizer text (ref0 # refs) (fst ?d)]"
    using assms
    by (simp add: synthesis_stage_def case_prod_beta trace_generate_clone split: sum.splits)
  then show ?thesis
    by (simp add: trace_determine_emotion tr)
qed

lemma trace_clone_voice_try:
  "trace (snd (clone_voice_try E text a1 a2 a3 tg s)) =
     trace (snd (synthesis_stage E text a1 a2 a3 tg s))
       @ (case fst (synthesis_stage E text a1 a2 a3 tg s) of
            Inl e \<Rightarrow> []
          | Inr (ref0, out, fe) \<Rightarrow>
              (case files (snd (synthesis_stage E text a1 a2 a3 tg s)) out of
                 None \<Rightarrow> [] | Some a \<Rightarrow> [AudioClassifier out]) @ [SpeakerEncoder ref0 out])"
proof (cases "synthesis_stage E text a1 a2 a3 tg s")
  case (Pair res s1)
  show ?thesis
  proof (cases res)
    case (Inl e)
    with Pair show ?thesis by (simp add: clone_voice_try_def)
  next
    case (Inr tup)
    obtain ref0 out fe where "tup = (ref0, out, fe)" by (cases tup) auto
    with Pair Inr show ?thesis
      by (simp add: clone_voice_try_def case_prod_beta trace_validate split: option.splits)
  qed
qed

lemma trace_clone_voice:
  "trace (snd (clone_voice E text a1 a2 a3 tg s))
     = trace (snd (clone_voice_try E text a1 a2 a3 tg s))"
  by (auto simp: clone_voice_def split: prod.splits sum.splits dest: trace_export)

lemma synth_events_clone_voice:
  assumes "Synthesizer t r e \<in> set (trace (snd (clone_voice E text a1 a2 a3 tg s)))"
  shows "Synthesizer t r e \<in> set (trace s)
         \<or> (\<exists>r0 s1. e = fst (determine_emotion E text r0 tg s1))"
proof (cases "process_refs E 0 (supplied [a1, a2, a3]) [] s")
  case (Pair res s1)
  have v: "Synthesizer t r e \<in> set (trace (snd (synthesis_stage E text a1 a2 a3 tg s)))"
    using assms
    by (auto simp: trace_clone_voice trace_clone_voice_try split: sum.splits option.splits)
  show ?thesis
  proof (cases "res = Inr [] \<or> isl res")
    case True
    from trace_synthesis_stage_failed [OF Pair True] v show ?thesis by simp
  next
    case False
    then obtain ref0 refs where "res = Inr (ref0 # refs)"
      by (cases res; cases "projr res") auto
    with Pair have "process_refs E 0 (supplied [a1, a2, a3]) [] s = (Inr (ref0 # refs), s1)"
      by simp
    from trace_synthesis_stage_refs [OF this] v show ?thesis
      by (auto split: option.splits if_splits)
  qed
qed

lemma text_events_clone_voice:
  assumes "TextClassifier t \<in> set (trace (snd (clone_voice E text a1 a2 a3 tg s)))"
    and "tg \<noteq> []"
  shows "TextClassifier t \<in> set (trace s)"
proof (cases "process_refs E 0 (supplied [a1, a2, a3]) [] s")
  case (Pair res s1)
  have v: "TextClassifier t \<in> set (trace (snd (synthesis_stage E text a1 a2 a3 tg s)))"
    using assms
    by (auto simp: trace_clone_voice trace_clone_voice_try split: sum.splits option.splits)
  show ?thesis
  proof (cases "res = Inr [] \<or> isl res")
    case True
    from trace_synthesis_stage_failed [OF Pair True] v show ?thesis by simp
  next
    case False
    then obtain ref0 refs where "res = Inr (ref0 # refs)"
      by (cases res; cases "projr res") auto
    with Pair have "process_refs E 0 (supplied [a1, a2, a3]) [] s = (Inr (ref0 # refs), s1)"
      by simp
    from trace_synthesis_stage_refs [OF this] v assms(2) show ?thesis
      by (auto split: option.splits if_splits)
  qed
qed

lemma synthesizer_invoked:
  assumes "process_refs E 0 (supplied [a1, a2, a3]) [] s = (Inr (ref0 # refs), s1)"
  shows "Synthesizer text (ref0 # refs) (fst (determine_emotion E text ref0 tg s1))
           \<in> set (trace (snd (clone_voice E text a1 a2 a3 tg s)))"
  by (simp add: trace_clone_voice trace_clone_voice_try trace_synthesis_stage_refs [OF assms])

section \<open>Properties\<close>

subsection \<open>Failures and the placeholder result\<close>

text \<open>
  Claim C1, as amended. Provided the placeholder file \<^verbatim>\<open>error.wav\<close> can be written,
  \<^verbatim>\<open>clone_voice\<close> always returns a tuple and propagates no exception. The tuple is exactly
  (path of \<^verbatim>\<open>error.wav\<close>, 0.0, "Error"), with one second of silence written to that
  file, whenever the normalization of a reference raises, and
  more generally whenever the body of the \<^verbatim>\<open>try\<close> raises before validation (no reference,
  a failed normalization, a failed synthesis); in particular when the synthesizer always
  raises. Exceptions of the classifiers and of the validation are absorbed by
  \<^verbatim>\<open>detect_text_emotion\<close>, \<^verbatim>\<open>extract_emotion\<close> and \<^verbatim>\<open>evaluate_similarity\<close> and do not by
  themselves produce this tuple.
\<close>

theorem clone_voice_sentinel:
  assumes "writable E (error_path E)"
  shows "(\<exists>r. fst (clone_voice E text audio_path1 audio_path2 audio_path3 target_emotion s) = Inr r)
   \<and> (isl (fst (process_refs E 0 (supplied [audio_path1, audio_path2, audio_path3]) [] s)) \<longrightarrow>
        fst (clone_voice E text audio_path1 audio_path2 audio_path3 target_emotion s)
          = Inr (error_path E, 0, ''Error''))
   \<and> (isl (fst (synthesis_stage E text audio_path1 audio_path2 audio_path3 target_emotion s)) \<longrightarrow>
        fst (clone_voice E text audio_path1 audio_path2 audio_path3 target_emotion s)
          = Inr (error_path E, 0, ''Error''))
   \<and> ((\<forall>t rs e. isl (tts_model E t rs e)) \<longrightarrow>
        fst (clone_voice E text audio_path1 audio_path2 audio_path3 target_emotion s)
          = Inr (error_path E, 0, ''Error''))
   \<and> (fst (clone_voice E text audio_path1 audio_path2 audio_path3 target_emotion s)
          = Inr (error_path E, 0, ''Error'') \<longrightarrow>
        files (snd (clone_voice E text audio_path1 audio_path2 audio_path3 target_emotion s))
          (error_path E) = Some (silent E 1000))"
proof -
  let ?cv = "clone_voice E text audio_path1 audio_path2 audio_path3 target_emotion s"
  let ?body = "clone_voice_try E text audio_path1 audio_path2 audio_path3 target_emotion s"
  let ?stage = "synthesis_stage E text audio_path1 audio_path2 audio_path3 target_emotion s"
  have f: "fst ?cv = Inr (error_path E, 0, ''Error'')" if "isl (fst ?stage)"
  proof -
    from that have "isl (fst ?body)" by (simp add: isl_clone_voice_try)
    from clone_voice_failed [OF this] assms show ?thesis by (simp add: Let_def)
  qed
  have 1: "\<exists>r. fst ?cv = Inr r"
  proof (cases "isl (fst ?stage)")
    case True
    with f show ?thesis by blast
  next
    case False
    then have n: "\<not> isl (fst ?body)" by (simp add: isl_clone_voice_try)
    then obtain r where "fst ?body = Inr r" by (cases "fst ?body") auto
    with clone_voice_succeeded [OF n] have "fst ?cv = Inr r" by simp
    then show ?thesis ..
  qed
  have 2: "files (snd ?cv) (error_path E) = Some (silent E 1000)"
    if r: "fst ?cv = Inr (error_path E, 0, ''Error'')"
  proof (cases "isl (fst ?body)")
    case True
    from clone_voice_failed [OF this] assms show ?thesis by (simp add: Let_def)
  next
    case False
    then have "?cv = ?body" by (rule clone_voice_succeeded)
    moreover from False obtain ref0 out fe s1 where
      st: "?stage = (Inr (ref0, out, fe), s1)"
      by (cases ?stage; cases "fst ?stage") (auto simp: isl_clone_voice_try)
    ultimately have "fst (fst (validate E ref0 out fe s1)) = error_path E"
      using r by (simp add: clone_voice_try_def case_prod_beta)
    with synthesis_stage_output [OF st] output_path_neq_error_path [of E] show ?thesis
      by (simp add: fst_validate)
  qed
  from 1 f 2 isl_synthesis_stage_refs isl_synthesis_stage_tts show ?thesis by blast
qed

theorem clone_voice_sentinel_witness:
  "writable tts_fails_env (error_path tts_fails_env)
   \<and> (\<forall>t rs e. isl (tts_model tts_fails_env t rs e))
   \<and> fst (clone_voice tts_fails_env ''Hello'' (Some ''ref.mp3'') None None ''happy'' demo_world)
        = Inr (''/tmp/error.wav'', 0, ''Error'')
   \<and> files (snd (clone_voice tts_fails_env ''Hello'' (Some ''ref.mp3'') None None ''happy''
                    demo_world)) ''/tmp/error.wav''
        = Some (Silence 1000)"
proof -
  have w: "writable tts_fails_env (error_path tts_fails_env)"
    by (simp add: tts_fails_env_def demo_env_def)
  have t: "\<forall>t rs e. isl (tts_model tts_fails_env t rs e)"
    by (simp add: tts_fails_env_def demo_env_def)
  have p: "error_path tts_fails_env = ''/tmp/error.wav''"
    by (simp add: path_defs tts_fails_env_def demo_env_def)
  have q: "silent tts_fails_env 1000 = Silence 1000"
    by (simp add: tts_fails_env_def demo_env_def)
  from clone_voice_sentinel [OF w, of "''Hello''" "Some ''ref.mp3''" None None "''happy''"
      demo_world] w t p q
  show ?thesis by simp
qed

text \<open>
  The claim as stated fails twice. A raising text classifier is absorbed, and the call
  returns the synthesized audio with the verdict for neutral, not the placeholder tuple.
  And when the synthesizer raises while \<^verbatim>\<open>error.wav\<close> cannot be written, the handler's own
  \<^verbatim>\<open>export\<close> raises outside any \<^verbatim>\<open>try\<close> and the exception reaches the caller.
\<close>

theorem clone_voice_sentinel_counterexample:
  "isl (text_model text_fails_env ''Hello'')
   \<and> fst (clone_voice text_fails_env ''Hello'' (Some ''ref.mp3'') None None '''' demo_world)
        = Inr (''/tmp/output.wav'', 1, ''neutral ('' @ cross_mark @ '' Got hap)'')
   \<and> fst (clone_voice text_fails_env ''Hello'' (Some ''ref.mp3'') None None '''' demo_world)
        \<noteq> Inr (error_path text_fails_env, 0, ''Error'')
   \<and> isl (tts_model error_unwritable_env ''Hello'' [Canon (Raw ''alice'')] ''happy'')
   \<and> fst (clone_voice error_unwritable_env ''Hello'' (Some ''ref.mp3'') None None ''happy''
             demo_world)
        = Inl (PermissionError ''/tmp/error.wav'')"
  by (simp add: stage_defs path_defs text_fails_env_def error_unwritable_env_def
      tts_fails_env_def demo_env_def demo_world_def)

subsection \<open>Emotion resolution\<close>

text \<open>
  Claim C2. For every text, every reference and every environment (hence every classifier
  output), a requested emotion that is not empty and whose lower-cased form is one of
  happy, sad, angry, neutral is resolved to that lower-cased label.
\<close>

theorem override_wins:
  assumes "target_emotion \<noteq> []"
    and "lower target_emotion \<in> {''happy'', ''sad'', ''angry'', ''neutral''}"
  shows "fst (determine_emotion E text ref0 target_emotion s) = lower target_emotion"
  using assms by (auto simp: determine_emotion_def Let_def case_prod_beta dict_get_def)

theorem override_wins_witness:
  "''Angry'' \<noteq> [] \<and> lower ''Angry'' \<in> {''happy'', ''sad'', ''angry'', ''neutral''}
   \<and> fst (determine_emotion demo_env ''I am so thrilled and joyful today!''
             ''/tmp/processed_0.wav'' ''Angry'' demo_world) = ''angry''"
proof -
  have l: "lower ''Angry'' = ''angry''" by (simp add: lower_def lower_char_def)
  have h1: "''Angry'' \<noteq> []" by simp
  have h2: "lower ''Angry'' \<in> {''happy'', ''sad'', ''angry'', ''neutral''}" by (simp add: l)
  from override_wins [OF h1 h2, of demo_env "''I am so thrilled and joyful today!''"
      "''/tmp/processed_0.wav''" demo_world] h1 h2 l
  show ?thesis by simp
qed

text \<open>
  Claim C3. With an empty requested emotion the resolved emotion is the label of the text
  classifier, lower-cased and mapped by \<^verbatim>\<open>emotion_map\<close> with default neutral, so it is one
  of happy, sad, angry, neutral. When the text classifier raises, the resolved emotion is
  neutral and the whole call behaves exactly as if the classifier had answered neutral:
  the failure is not surfaced.
\<close>

theorem auto_mode_text_emotion:
  "fst (determine_emotion E text ref0 '''' s)
     = (case text_model E text of
          Inl e \<Rightarrow> ''neutral''
        | Inr label \<Rightarrow> dict_get emotion_map (lower label) ''neutral'')
   \<and> fst (determine_emotion E text ref0 '''' s) \<in> {''happy'', ''sad'', ''angry'', ''neutral''}
   \<and> (isl (text_model E text) \<longrightarrow>
        fst (determine_emotion E text ref0 '''' s) = ''neutral''
        \<and> clone_voice E text audio_path1 audio_path2 audio_path3 '''' s
            = clone_voice (E\<lparr>text_model := (\<lambda>t. Inr ''neutral'')\<rparr>)
                text audio_path1 audio_path2 audio_path3 '''' s)"
proof -
  have d: "fst (determine_emotion E text ref0 '''' s)
             = fst (detect_text_emotion E text (snd (extract_emotion E ref0 s)))"
    by (simp add: determine_emotion_def case_prod_beta)
  have 1: "fst (determine_emotion E text ref0 '''' s)
     = (case text_model E text of
          Inl e \<Rightarrow> ''neutral''
        | Inr label \<Rightarrow> dict_get emotion_map (lower label) ''neutral'')"
    by (simp add: d detect_text_emotion_def Let_def split: sum.splits)
  have 2: "fst (determine_emotion E text ref0 '''' s) \<in> {''happy'', ''sad'', ''angry'', ''neutral''}"
    unfolding d by (rule detect_text_emotion_taxonomy)
  have 3: "clone_voice E text audio_path1 audio_path2 audio_path3 '''' s
            = clone_voice (E\<lparr>text_model := (\<lambda>t. Inr ''neutral'')\<rparr>)
                text audio_path1 audio_path2 audio_path3 '''' s" if "isl (text_model E text)"
  proof -
    from that obtain e where "text_model E text = Inl e" by (cases "text_model E text") auto
    then show ?thesis by (rule clone_voice_text_fails)
  qed
  from 1 2 3 show ?thesis by (auto split: sum.splits)
qed

theorem auto_mode_text_emotion_witness:
  "isl (text_model text_fails_env ''Hello'')
   \<and> fst (determine_emotion text_fails_env ''Hello'' ''/tmp/processed_0.wav'' '''' demo_world)
       = ''neutral''
   \<and> fst (clone_voice text_fails_env ''Hello'' (Some ''ref.mp3'') None None '''' demo_world)
       = fst (clone_voice (text_fails_env\<lparr>text_model := (\<lambda>t. Inr ''neutral'')\<rparr>)
                ''Hello'' (Some ''ref.mp3'') None None '''' demo_world)
   \<and> \<not> isl (fst (clone_voice text_fails_env ''Hello'' (Some ''ref.mp3'') None None ''''
                    demo_world))"
proof -
  have m: "text_model text_fails_env ''Hello'' = Inl (RuntimeError ''text model unavailable'')"
    by (simp add: text_fails_env_def demo_env_def)
  then have h: "isl (text_model text_fails_env ''Hello'')"
    by simp
  have r: "\<not> isl (fst (clone_voice text_fails_env ''Hello'' (Some ''ref.mp3'') None None ''''
                        demo_world))"
    by (simp add: stage_defs path_defs text_fails_env_def demo_env_def demo_world_def)
  from auto_mode_text_emotion [of text_fails_env "''Hello''" "''/tmp/processed_0.wav''"
      demo_world "Some ''ref.mp3''" None None] h r
  show ?thesis by (simp add: m)
qed

subsection \<open>No reference\<close>

text \<open>
  Claim C4, as amended. With no reference supplied (every path \<^verbatim>\<open>None\<close> or empty) the body of
  the \<^verbatim>\<open>try\<close> raises \<^verbatim>\<open>ValueError("At least one reference audio required")\<close> with the
  files and the trace unchanged, so before any model is invoked. The handler of
  \<^verbatim>\<open>clone_voice\<close> then treats it as any other failure: it writes the silent placeholder to
  \<^verbatim>\<open>error.wav\<close> and returns (path of \<^verbatim>\<open>error.wav\<close>, 0.0, "Error"), or propagates the write's
  exception when the file cannot be written. No model is invoked on this path.
\<close>

theorem no_reference_precondition:
  assumes "supplied [audio_path1, audio_path2, audio_path3] = []"
  shows "clone_voice_try E text audio_path1 audio_path2 audio_path3 target_emotion s
           = (Inl (ValueError ''At least one reference audio required''), s)
   \<and> clone_voice E text audio_path1 audio_path2 audio_path3 target_emotion s
       = (if writable E (error_path E)
          then (Inr (error_path E, 0, ''Error''),
                s\<lparr>files := (files s)(error_path E \<mapsto> silent E 1000)\<rparr>)
          else (Inl (PermissionError (error_path E)), s))
   \<and> trace (snd (clone_voice E text audio_path1 audio_path2 audio_path3 target_emotion s))
       = trace s"
proof -
  let ?body = "clone_voice_try E text audio_path1 audio_path2 audio_path3 target_emotion s"
  have t: "?body = (Inl (ValueError ''At least one reference audio required''), s)"
    using assms by (rule clone_voice_try_no_reference)
  then have "isl (fst ?body)" by simp
  from clone_voice_failed [OF this] t
  have c: "clone_voice E text audio_path1 audio_path2 audio_path3 target_emotion s
       = (if writable E (error_path E)
          then (Inr (error_path E, 0, ''Error''),
                s\<lparr>files := (files s)(error_path E \<mapsto> silent E 1000)\<rparr>)
          else (Inl (PermissionError (error_path E)), s))"
    by (simp add: Let_def)
  from t c show ?thesis by simp
qed

theorem no_reference_precondition_witness:
  "supplied [None, Some '''', None] = []
   \<and> clone_voice_try demo_env ''Hello'' None (Some '''') None '''' demo_world
        = (Inl (ValueError ''At least one reference audio required''), demo_world)
   \<and> clone_voice demo_env ''Hello'' None (Some '''') None '''' demo_world
        = (Inr (''/tmp/error.wav'', 0, ''Error''),
           demo_world\<lparr>files := (files demo_world)(''/tmp/error.wav'' \<mapsto> Silence 1000)\<rparr>)"
proof -
  have h: "supplied [None, Some '''', None] = []" by simp
  have e: "error_path demo_env = ''/tmp/error.wav''" "writable demo_env ''/tmp/error.wav''"
    "silent demo_env 1000 = Silence 1000"
    by (simp_all add: path_defs demo_env_def)
  from no_reference_precondition [OF h, of demo_env "''Hello''" "''''" demo_world] h e
  show ?thesis by simp
qed

text \<open>
  The claim as stated fails: with no reference the call does not fail, it returns the
  placeholder tuple, and the placeholder file, absent before, holds one second of silence
  afterwards.
\<close>

theorem no_reference_precondition_counterexample:
  "supplied [None, None, None] = []
   \<and> fst (clone_voice demo_env ''Hello'' None None None '''' demo_world)
        = Inr (''/tmp/error.wav'', 0, ''Error'')
   \<and> files demo_world ''/tmp/error.wav'' = None
   \<and> files (snd (clone_voice demo_env ''Hello'' None None None '''' demo_world))
        ''/tmp/error.wav'' = Some (Silence 1000)"
  by (simp add: stage_defs path_defs demo_env_def demo_world_def)

subsection \<open>Labels of the audio classifier\<close>

text \<open>
  Claim C5. \<^verbatim>\<open>detect_text_emotion\<close> maps the text classifier's label into the taxonomy
  (lemma \<open>detect_text_emotion_taxonomy\<close>), but \<^verbatim>\<open>extract_emotion\<close> returns the audio
  classifier's label lower-cased and unmapped. On an audio classifier that answers
  \<^verbatim>\<open>hap\<close>, the detected emotion is \<^verbatim>\<open>hap\<close>, which is outside the taxonomy, and a request for
  happy gets the verdict of a mismatch.
\<close>

theorem audio_label_not_mapped:
  "audio_model demo_env (Speech ''Hello'' [Canon (Raw ''alice'')] ''happy'') = Inr ''hap''
   \<and> fst (extract_emotion demo_env ''/tmp/output.wav''
        \<lparr>files = [''/tmp/output.wav'' \<mapsto> Speech ''Hello'' [Canon (Raw ''alice'')] ''happy''],
         trace = []\<rparr>) = ''hap''
   \<and> ''hap'' \<notin> {''happy'', ''sad'', ''angry'', ''neutral''}
   \<and> fst (clone_voice demo_env ''Hello'' (Some ''ref.mp3'') None None ''happy'' demo_world)
        = Inr (''/tmp/output.wav'', 1, ''happy ('' @ cross_mark @ '' Got hap)'')"
  by (simp add: stage_defs path_defs demo_env_def demo_world_def)

subsection \<open>The verdict\<close>

text \<open>
  Claim C6. When the synthesis has succeeded, the third component of the tuple returned by
  \<^verbatim>\<open>clone_voice\<close> is the resolved emotion followed by " (U+2714)" when the emotion detected
  on the synthesized file equals the resolved emotion, and by " (U+2716 Got detected)"
  otherwise (the marks in UTF-8). For resolved sad: detected sad gives "sad (U+2714)",
  detected angry gives "sad (U+2716 Got angry)".
\<close>

theorem verdict_format:
  "(synthesis_stage E text audio_path1 audio_path2 audio_path3 target_emotion s
       = (Inr (ref0, out, final_emotion), s1) \<longrightarrow>
     (\<exists>p sim. fst (clone_voice E text audio_path1 audio_path2 audio_path3 target_emotion s)
        = Inr (p, sim,
            (let cloned_emotion = fst (extract_emotion E out s1) in
             if cloned_emotion = final_emotion
             then final_emotion @ '' ('' @ [CHR 0xE2, CHR 0x9C, CHR 0x94] @ '')''
             else final_emotion @ '' ('' @ [CHR 0xE2, CHR 0x9C, CHR 0x96] @ '' Got ''
                    @ cloned_emotion @ '')''))))
   \<and> verdict ''sad'' ''sad'' = ''sad ('' @ [CHR 0xE2, CHR 0x9C, CHR 0x94] @ '')''
   \<and> verdict ''sad'' ''angry'' = ''sad ('' @ [CHR 0xE2, CHR 0x9C, CHR 0x96] @ '' Got angry)''"
proof -
  have 1: "\<exists>p sim. fst (clone_voice E text audio_path1 audio_path2 audio_path3 target_emotion s)
        = Inr (p, sim,
            (let cloned_emotion = fst (extract_emotion E out s1) in
             if cloned_emotion = final_emotion
             then final_emotion @ '' ('' @ [CHR 0xE2, CHR 0x9C, CHR 0x94] @ '')''
             else final_emotion @ '' ('' @ [CHR 0xE2, CHR 0x9C, CHR 0x96] @ '' Got ''
                    @ cloned_emotion @ '')''))"
    if "synthesis_stage E text audio_path1 audio_path2 audio_path3 target_emotion s
       = (Inr (ref0, out, final_emotion), s1)"
    using clone_voice_after_synthesis [OF that]
    by (simp add: fst_validate verdict_def check_mark_def cross_mark_def Let_def)
  have 2: "verdict ''sad'' ''sad'' = ''sad ('' @ [CHR 0xE2, CHR 0x9C, CHR 0x94] @ '')''"
    by (simp add: verdict_def check_mark_def)
  have 3: "verdict ''sad'' ''angry'' = ''sad ('' @ [CHR 0xE2, CHR 0x9C, CHR 0x96] @ '' Got angry)''"
    by (simp add: verdict_def cross_mark_def)
  from 1 2 3 show ?thesis by blast
qed

theorem verdict_format_witness:
  "(\<exists>s1. synthesis_stage matching_env ''Hello'' (Some ''ref.mp3'') None None ''sad'' demo_world
        = (Inr (''/tmp/processed_0.wav'', ''/tmp/output.wav'', ''sad''), s1)
        \<and> fst (extract_emotion matching_env ''/tmp/output.wav'' s1) = ''sad'')
   \<and> (\<exists>p sim. fst (clone_voice matching_env ''Hello'' (Some ''ref.mp3'') None None ''sad''
                      demo_world)
        = Inr (p, sim, ''sad ('' @ [CHR 0xE2, CHR 0x9C, CHR 0x94] @ '')''))"
proof -
  obtain s1 where
    st: "synthesis_stage matching_env ''Hello'' (Some ''ref.mp3'') None None ''sad'' demo_world
        = (Inr (''/tmp/processed_0.wav'', ''/tmp/output.wav'', ''sad''), s1)"
    and ex: "fst (extract_emotion matching_env ''/tmp/output.wav'' s1) = ''sad''"
    by (simp add: stage_defs path_defs matching_env_def demo_env_def demo_world_def)
  from verdict_format [of matching_env "''Hello''" "Some ''ref.mp3''" None None "''sad''"
      demo_world "''/tmp/processed_0.wav''" "''/tmp/output.wav''" "''sad''" s1] st ex
  have "\<exists>p sim. fst (clone_voice matching_env ''Hello'' (Some ''ref.mp3'') None None ''sad''
                      demo_world)
        = Inr (p, sim, ''sad ('' @ [CHR 0xE2, CHR 0x9C, CHR 0x94] @ '')'')"
    by simp
  with st ex show ?thesis by blast
qed

subsection \<open>The similarity score\<close>


subsection \<open>Failures during validation\<close>

text \<open>
  Claim C8. Once the synthesis has succeeded, \<^verbatim>\<open>clone_voice\<close> returns the path of the
  synthesized file, which holds the synthesized audio, and never the placeholder tuple. A
  failure of the speaker encoder on either file, or of the similarity metric, gives the
  similarity 0.0; a failure of the audio classifier on the synthesized file gives the
  detected emotion neutral.
\<close>

theorem validation_failure_absorbed:
  assumes "synthesis_stage E text audio_path1 audio_path2 audio_path3 target_emotion s
             = (Inr (ref0, out, final_emotion), s1)"
  shows "(\<exists>sim cloned_emotion.
            fst (clone_voice E text audio_path1 audio_path2 audio_path3 target_emotion s)
              = Inr (output_path E, sim, verdict final_emotion cloned_emotion)
            \<and> (isl (embed_file E ref0 s1) \<or> isl (embed_file E (output_path E) s1)
                 \<or> (\<exists>x y. embed_file E ref0 s1 = Inr x \<and> embed_file E (output_path E) s1 = Inr y
                       \<and> isl (cosine_similarity x y))
                \<longrightarrow> sim = 0)
            \<and> ((\<exists>a. files s1 (output_path E) = Some a \<and> isl (audio_model E a))
                \<longrightarrow> cloned_emotion = ''neutral''))
   \<and> fst (clone_voice E text audio_path1 audio_path2 audio_path3 target_emotion s)
        \<noteq> Inr (error_path E, 0, ''Error'')
   \<and> (\<exists>wav. files (snd (clone_voice E text audio_path1 audio_path2 audio_path3
                           target_emotion s)) (output_path E) = Some wav)"
proof -
  let ?cv = "clone_voice E text audio_path1 audio_path2 audio_path3 target_emotion s"
  let ?s2 = "snd (extract_emotion E out s1)"
  let ?sim = "fst (evaluate_similarity E ref0 out ?s2)"
  let ?cloned = "fst (extract_emotion E out s1)"
  from synthesis_stage_output [OF assms] obtain wav where
    out: "out = output_path E" and wav: "files s1 out = Some wav"
    by blast
  have cv: "?cv = (Inr (fst (validate E ref0 out final_emotion s1)),
                   snd (validate E ref0 out final_emotion s1))"
    using assms by (rule clone_voice_after_synthesis)
  have r: "fst ?cv = Inr (output_path E, ?sim, verdict final_emotion ?cloned)"
    by (simp add: cv fst_validate out)
  have a: "?sim = 0"
    if "isl (embed_file E ref0 s1) \<or> isl (embed_file E (output_path E) s1)
         \<or> (\<exists>x y. embed_file E ref0 s1 = Inr x \<and> embed_file E (output_path E) s1 = Inr y
               \<and> isl (cosine_similarity x y))"
    using that by (intro evaluate_similarity_absorbs) (simp add: embed_file_extract_emotion out)
  have b: "?cloned = ''neutral''"
    if "\<exists>a. files s1 (output_path E) = Some a \<and> isl (audio_model E a)"
    using that extract_emotion_absorbs [of s1 out _ E] by (auto simp: out)
  have 1: "\<exists>sim cloned_emotion.
            fst ?cv = Inr (output_path E, sim, verdict final_emotion cloned_emotion)
            \<and> (isl (embed_file E ref0 s1) \<or> isl (embed_file E (output_path E) s1)
                 \<or> (\<exists>x y. embed_file E ref0 s1 = Inr x \<and> embed_file E (output_path E) s1 = Inr y
                       \<and> isl (cosine_similarity x y))
                \<longrightarrow> sim = 0)
            \<and> ((\<exists>a. files s1 (output_path E) = Some a \<and> isl (audio_model E a))
                \<longrightarrow> cloned_emotion = ''neutral'')"
    using r a b by blast
  have 2: "fst ?cv \<noteq> Inr (error_path E, 0, ''Error'')"
    using output_path_neq_error_path [of E] by (simp add: r)
  have 3: "\<exists>wav. files (snd ?cv) (output_path E) = Some wav"
    using wav by (simp add: cv files_validate out)
  from 1 2 3 show ?thesis by blast
qed

theorem validation_failure_absorbed_witness:
  "(\<exists>s1. synthesis_stage validation_fails_env ''Hello'' (Some ''ref.mp3'') None None ''happy''
            demo_world
          = (Inr (''/tmp/processed_0.wav'', ''/tmp/output.wav'', ''happy''), s1)
        \<and> isl (embed_file validation_fails_env ''/tmp/processed_0.wav'' s1)
        \<and> (\<exists>a. files s1 ''/tmp/output.wav'' = Some a \<and> isl (audio_model validation_fails_env a)))
   \<and> fst (clone_voice validation_fails_env ''Hello'' (Some ''ref.mp3'') None None ''happy''
             demo_world)
        = Inr (''/tmp/output.wav'', 0, verdict ''happy'' ''neutral'')
   \<and> files (snd (clone_voice validation_fails_env ''Hello'' (Some ''ref.mp3'') None None ''happy''
                    demo_world)) ''/tmp/output.wav''
        = Some (Speech ''Hello'' [Canon (Raw ''alice'')] ''happy'')"
proof -
  obtain s1 where
    st: "synthesis_stage validation_fails_env ''Hello'' (Some ''ref.mp3'') None None ''happy''
            demo_world
          = (Inr (''/tmp/processed_0.wav'', ''/tmp/output.wav'', ''happy''), s1)"
    and em: "isl (embed_file validation_fails_env ''/tmp/processed_0.wav'' s1)"
    and au: "\<exists>a. files s1 ''/tmp/output.wav'' = Some a \<and> isl (audio_model validation_fails_env a)"
    and fi: "files s1 ''/tmp/output.wav'' = Some (Speech ''Hello'' [Canon (Raw ''alice'')] ''happy'')"
    by (simp add: stage_defs path_defs validation_fails_env_def demo_env_def demo_world_def)
  have o: "output_path validation_fails_env = ''/tmp/output.wav''"
    by (simp add: path_defs validation_fails_env_def demo_env_def)
  from validation_failure_absorbed [OF st] em au
  have r: "fst (clone_voice validation_fails_env ''Hello'' (Some ''ref.mp3'') None None ''happy''
             demo_world)
        = Inr (''/tmp/output.wav'', 0, verdict ''happy'' ''neutral'')"
    by (auto simp: o)
  have f: "files (snd (clone_voice validation_fails_env ''Hello'' (Some ''ref.mp3'') None None
                    ''happy'' demo_world)) ''/tmp/output.wav''
        = Some (Speech ''Hello'' [Canon (Raw ''alice'')] ''happy'')"
    using fi by (simp add: clone_voice_after_synthesis [OF st] files_validate)
  from st em au r f show ?thesis by blast
qed

subsection \<open>Resolution and the reference audio\<close>

text \<open>
  Claim C9. Two calls with the same text and the same requested emotion, on any two
  reference sets, file systems and environments that agree on the text classifier's answer
  for the text (the audio classifier and every other collaborator may differ), pass the
  same emotion to the synthesizer: every synthesizer invocation of one call carries the
  emotion of every synthesizer invocation of the other.
\<close>

theorem resolution_ignores_reference_audio:
  assumes "text_model E1 text = text_model E2 text"
    and "Synthesizer t1 r1 e1 \<in> set (trace (snd (clone_voice E1 text a1 a2 a3 target_emotion
            \<lparr>files = fs1, trace = []\<rparr>)))"
    and "Synthesizer t2 r2 e2 \<in> set (trace (snd (clone_voice E2 text b1 b2 b3 target_emotion
            \<lparr>files = fs2, trace = []\<rparr>)))"
  shows "e1 = e2"
proof -
  from synth_events_clone_voice [OF assms(2)]
  obtain p1 w1 where 1: "e1 = fst (determine_emotion E1 text p1 target_emotion w1)" by auto
  from synth_events_clone_voice [OF assms(3)]
  obtain p2 w2 where 2: "e2 = fst (determine_emotion E2 text p2 target_emotion w2)" by auto
  from 1 2 determine_emotion_independent [OF assms(1)] show ?thesis by simp
qed

theorem resolution_ignores_reference_audio_witness:
  "text_model demo_env ''Hello'' = text_model audio_disagrees_env ''Hello''
   \<and> fst (extract_emotion demo_env ''/tmp/processed_0.wav''
        (snd (process_refs demo_env 0 [''ref.mp3''] [] demo_world))) = ''hap''
   \<and> fst (extract_emotion audio_disagrees_env ''/tmp/processed_0.wav''
        (snd (process_refs audio_disagrees_env 0 [''bob.wav'', ''carol.ogg''] [] other_world))) = ''sad''
   \<and> Synthesizer ''Hello'' [''/tmp/processed_0.wav''] ''happy''
       \<in> set (trace (snd (clone_voice demo_env ''Hello'' (Some ''ref.mp3'') None None ''''
            \<lparr>files = files demo_world, trace = []\<rparr>)))
   \<and> Synthesizer ''Hello'' [''/tmp/processed_0.wav'', ''/tmp/processed_1.wav''] ''happy''
       \<in> set (trace (snd (clone_voice audio_disagrees_env ''Hello'' (Some ''bob.wav'') None
            (Some ''carol.ogg'') '''' \<lparr>files = files other_world, trace = []\<rparr>)))"
proof -
  have h: "text_model demo_env ''Hello'' = text_model audio_disagrees_env ''Hello''"
    by (simp add: audio_disagrees_env_def demo_env_def)
  have a1: "fst (extract_emotion demo_env ''/tmp/processed_0.wav''
        (snd (process_refs demo_env 0 [''ref.mp3''] [] demo_world))) = ''hap''"
    by (simp add: stage_defs path_defs demo_env_def demo_world_def)
  have a2: "fst (extract_emotion audio_disagrees_env ''/tmp/processed_0.wav''
        (snd (process_refs audio_disagrees_env 0 [''bob.wav'', ''carol.ogg''] [] other_world))) = ''sad''"
    by (simp add: stage_defs path_defs audio_disagrees_env_def demo_env_def other_world_def)
  have s1: "Synthesizer ''Hello'' [''/tmp/processed_0.wav''] ''happy''
       \<in> set (trace (snd (clone_voice demo_env ''Hello'' (Some ''ref.mp3'') None None ''''
            \<lparr>files = files demo_world, trace = []\<rparr>)))"
    by (simp add: stage_defs path_defs demo_env_def demo_world_def)
  obtain e2 where s2: "Synthesizer ''Hello'' [''/tmp/processed_0.wav'', ''/tmp/processed_1.wav''] e2
       \<in> set (trace (snd (clone_voice audio_disagrees_env ''Hello'' (Some ''bob.wav'') None
            (Some ''carol.ogg'') '''' \<lparr>files = files other_world, trace = []\<rparr>)))"
    by (simp add: stage_defs path_defs audio_disagrees_env_def demo_env_def other_world_def)
  from resolution_ignores_reference_audio [OF h s1 s2] have "e2 = ''happy''" by simp
  with h a1 a2 s1 s2 show ?thesis by simp
qed

subsection \<open>Unrecognized requests\<close>

text \<open>
  Claim C10. A requested emotion that is not empty and whose lower-cased form is none of
  happy, sad, angry, neutral is resolved to neutral; the call adds no invocation of the
  text classifier to the trace; and once the references are normalized the synthesizer is
  invoked with the emotion neutral, so the request is not rejected.
\<close>

theorem unknown_override_neutral:
  assumes "target_emotion \<noteq> []"
    and "lower target_emotion \<notin> {''happy'', ''sad'', ''angry'', ''neutral''}"
  shows "fst (determine_emotion E text ref target_emotion w) = ''neutral''
   \<and> (\<forall>t. TextClassifier t
              \<in> set (trace (snd (clone_voice E text audio_path1 audio_path2 audio_path3
                                    target_emotion s)))
            \<longrightarrow> TextClassifier t \<in> set (trace s))
   \<and> (\<forall>ref0 refs s1.
         process_refs E 0 (supplied [audio_path1, audio_path2, audio_path3]) [] s
           = (Inr (ref0 # refs), s1)
         \<longrightarrow> Synthesizer text (ref0 # refs) ''neutral''
               \<in> set (trace (snd (clone_voice E text audio_path1 audio_path2 audio_path3
                                     target_emotion s))))"
proof -
  from assms(1) have nz: "lower target_emotion \<noteq> []"
    by (simp add: lower_Nil_iff)
  have n: "fst (determine_emotion E text r target_emotion w') = ''neutral''" for r and w' :: "'a world"
    using assms nz
    by (simp add: determine_emotion_def Let_def case_prod_beta dict_get_def)
  have t: "TextClassifier t \<in> set (trace s)"
    if "TextClassifier t \<in> set (trace (snd (clone_voice E text audio_path1 audio_path2
          audio_path3 target_emotion s)))" for t
    using that assms(1) by (rule text_events_clone_voice)
  have y: "Synthesizer text (ref0 # refs) ''neutral''
             \<in> set (trace (snd (clone_voice E text audio_path1 audio_path2 audio_path3
                  target_emotion s)))"
    if "process_refs E 0 (supplied [audio_path1, audio_path2, audio_path3]) [] s
          = (Inr (ref0 # refs), s1)" for ref0 refs s1
    using synthesizer_invoked [OF that, of "text" target_emotion] by (simp add: n)
  from n t y show ?thesis by blast
qed

theorem unknown_override_neutral_witness:
  "''excited'' \<noteq> [] \<and> lower ''excited'' \<notin> {''happy'', ''sad'', ''angry'', ''neutral''}
   \<and> fst (process_refs demo_env 0 (supplied [Some ''ref.mp3'', None, None]) [] demo_world)
        = Inr [''/tmp/processed_0.wav'']
   \<and> Synthesizer ''Hello'' [''/tmp/processed_0.wav''] ''neutral''
        \<in> set (trace (snd (clone_voice demo_env ''Hello'' (Some ''ref.mp3'') None None
                             ''excited'' demo_world)))
   \<and> TextClassifier ''Hello''
        \<notin> set (trace (snd (clone_voice demo_env ''Hello'' (Some ''ref.mp3'') None None
                             ''excited'' demo_world)))"
proof -
  have l: "lower ''excited'' = ''excited''" by (simp add: lower_def lower_char_def)
  have h1: "''excited'' \<noteq> []" by simp
  have h2: "lower ''excited'' \<notin> {''happy'', ''sad'', ''angry'', ''neutral''}"
    by (simp add: l)
  obtain s1 where p: "process_refs demo_env 0 (supplied [Some ''ref.mp3'', None, None]) []
      demo_world = (Inr [''/tmp/processed_0.wav''], s1)"
    by (simp add: export_def path_defs demo_env_def demo_world_def)
  have e: "TextClassifier ''Hello'' \<notin> set (trace demo_world)"
    by (simp add: demo_world_def)
  from unknown_override_neutral [OF h1 h2, of demo_env "''Hello''" "''/tmp/processed_0.wav''"
      demo_world "Some ''ref.mp3''" None None demo_world] p e h1 h2
  show ?thesis by auto
qed

end
